theory Spec2Isabelle
  imports Complex_Main
begin

section \<open>Python string primitives used by the orchestration core\<close>

text \<open>
  Strings are lists of characters. \<open>isspace\<close> is Python's \<open>str.isspace\<close> on the code
  points below 256: TAB, LF, VT, FF, CR, the separators FS, GS, RS, US, the blank, NEL
  and the no-break space. \<open>str.strip()\<close>, \<open>str.rstrip()\<close> and \<open>str.split()\<close>
  without arguments remove, respectively split at, runs of such characters.
\<close>

definition isspace :: "char \<Rightarrow> bool" where
  "isspace c = (of_char c \<in> {9, 10, 11, 12, 13, 28, 29, 30, 31, 32, 133, 160 :: nat})"

definition lstrip :: "string \<Rightarrow> string" where
  "lstrip s = dropWhile isspace s"

definition rstrip :: "string \<Rightarrow> string" where
  "rstrip s = rev (dropWhile isspace (rev s))"

definition strip :: "string \<Rightarrow> string" where
  "strip s = lstrip (rstrip s)"

text \<open>
  \<open>split_from cur s\<close> scans \<open>s\<close> with the token under construction \<open>cur\<close>;
  \<open>split\<close> is \<open>str.split()\<close>: the maximal runs of non-whitespace, in order.
\<close>

fun split_from :: "string \<Rightarrow> string \<Rightarrow> string list" where
  "split_from cur [] = (if cur = [] then [] else [cur])"
| "split_from cur (c # cs) =
     (if isspace c then (if cur = [] then split_from [] cs else cur # split_from [] cs)
      else split_from (cur @ [c]) cs)"

definition split :: "string \<Rightarrow> string list" where
  "split s = split_from [] s"

text \<open>\<open>s.replace(old, new)\<close> for one-character \<open>old\<close> and \<open>new\<close>: every occurrence.\<close>

definition replace :: "char \<Rightarrow> char \<Rightarrow> string \<Rightarrow> string" where
  "replace old new s = map (\<lambda>c. if c = old then new else c) s"

text \<open>\<open>' '.join(xs)\<close>.\<close>

fun join_space :: "string list \<Rightarrow> string" where
  "join_space [] = []"
| "join_space [x] = x"
| "join_space (x # y # ys) = x @ '' '' @ join_space (y # ys)"

section \<open>Configuration and exceptions\<close>

text \<open>\<open>BuildConfig\<close> of \<open>app/core/config_manager.py\<close>, field for field.\<close>

record BuildConfig =
  script_path :: string
  requirements_path :: string
  output_dir :: string
  icon_path :: string
  app_name :: string
  one_file :: bool
  console_mode :: bool
  clean_build :: bool
  hidden_imports :: "string list"
  exclude_modules :: "string list"
  data_files :: "string list"
  additional_args :: string

text \<open>The dataclass defaults.\<close>

definition default_config :: BuildConfig where
  "default_config = \<lparr> script_path = [], requirements_path = [], output_dir = [],
     icon_path = [], app_name = [], one_file = True, console_mode = True,
     clean_build = True, hidden_imports = [], exclude_modules = [], data_files = [],
     additional_args = [] \<rparr>"

text \<open>
  Exceptions are values. \<open>ValueError\<close> is the one the command builder raises itself;
  \<open>Exception\<close> stands for any other subclass of Python's \<open>Exception\<close> (an
  \<open>OSError\<close> of the spawn, an error of a plugin), carrying its \<open>str(e)\<close>.
\<close>

datatype exn = ValueError string | Exception string

fun exn_str :: "exn \<Rightarrow> string" where
  "exn_str (ValueError m) = m"
| "exn_str (Exception m) = m"

text \<open>
  What the code reads from its host: \<open>sys.platform == 'win32'\<close> and
  \<open>Path(p).exists()\<close>.
\<close>

record host =
  win32 :: bool
  path_exists :: "string \<Rightarrow> bool"

section \<open>The command builder: \<open>BuildWorker._build_command\<close>\<close>

record BuildWorker =
  config :: BuildConfig
  python_path :: string

text \<open>
  \<open>path_sep = ';' if sys.platform == 'win32' else ':'\<close>, and the bodies of the three
  \<open>for\<close> loops, each taking the command built so far and one list entry.
\<close>

definition path_sep :: "host \<Rightarrow> char" where
  "path_sep h = (if win32 h then CHR '';'' else CHR '':'')"

definition add_hidden_import :: "string list \<Rightarrow> string \<Rightarrow> string list" where
  "add_hidden_import cmd hidden_import =
     (if strip hidden_import \<noteq> [] then cmd @ [''--hidden-import'', strip hidden_import]
      else cmd)"

definition add_exclude_module :: "string list \<Rightarrow> string \<Rightarrow> string list" where
  "add_exclude_module cmd exclude_module =
     (if strip exclude_module \<noteq> [] then cmd @ [''--exclude-module'', strip exclude_module]
      else cmd)"

definition add_data_file :: "char \<Rightarrow> string list \<Rightarrow> string \<Rightarrow> string list" where
  "add_data_file sep cmd data_file =
     (if strip data_file \<noteq> []
      then (let normalized = replace (CHR '';'') sep (strip data_file)
            in cmd @ [''--add-data'', normalized])
      else cmd)"

definition build_command :: "host \<Rightarrow> BuildWorker \<Rightarrow> exn + string list" where
  "build_command h w =
    (let cfg = config w;
         cmd = [python_path w, ''-m'', ''PyInstaller''];
         script = script_path cfg
     in if script = [] then Inl (ValueError ''Script path is required'')
        else
         (let cmd = (if one_file cfg then cmd @ [''--onefile''] else cmd @ [''--onedir'']);
              cmd = (if \<not> console_mode cfg then cmd @ [''--noconsole''] else cmd);
              cmd = (if clean_build cfg then cmd @ [''--clean''] else cmd);
              cmd = cmd @ [''--noconfirm''];
              cmd = (if output_dir cfg \<noteq> [] then cmd @ [''--distpath'', output_dir cfg]
                     else cmd);
              cmd = (if app_name cfg \<noteq> [] then cmd @ [''--name'', app_name cfg] else cmd);
              cmd = (if icon_path cfg \<noteq> [] \<and> path_exists h (icon_path cfg)
                     then cmd @ [''--icon'', icon_path cfg] else cmd);
              cmd = foldl add_hidden_import cmd (hidden_imports cfg);
              cmd = foldl add_exclude_module cmd (exclude_modules cfg);
              cmd = foldl (add_data_file (path_sep h)) cmd (data_files cfg);
              cmd = (if additional_args cfg \<noteq> [] then cmd @ split (additional_args cfg)
                     else cmd)
          in Inr (cmd @ [script])))"

section \<open>The process runner: \<open>app/utils/shell.py\<close>\<close>

record ProcessResult =
  return_code :: int
  stdout :: string
  stderr :: string
  success :: bool

text \<open>\<open>str(n)\<close> for an integer, as an f-string formats it.\<close>

fun str_nat :: "nat \<Rightarrow> string" where
  "str_nat n = (if n < 10 then [''0123456789'' ! n]
                else str_nat (n div 10) @ [''0123456789'' ! (n mod 10)])"

definition str_int :: "int \<Rightarrow> string" where
  "str_int i = (if i < 0 then ''-'' @ str_nat (nat (- i)) else str_nat (nat i))"

text \<open>
  What \<open>subprocess.run\<close> does in a buffered run: it returns a completed process (exit
  code, captured standard output and standard error), or raises \<open>TimeoutExpired\<close>
  (whose \<open>stdout\<close> may be \<open>None\<close>), or raises another exception, as when the
  executable is missing or may not be executed.
\<close>

datatype subprocess_run =
    Completed int string string
  | TimeoutExpired "string option"
  | RunRaises exn

text \<open>
  \<open>run_command\<close>: the \<open>try\<close> body and its two handlers are the three cases. The
  timeout is the optional integer the caller passed.
\<close>

definition run_command :: "subprocess_run \<Rightarrow> int option \<Rightarrow> ProcessResult" where
  "run_command sp timeout =
     (case sp of
        Completed returncode out err \<Rightarrow>
          \<lparr> return_code = returncode, stdout = out, stderr = err,
            success = (returncode = 0) \<rparr>
      | TimeoutExpired e_stdout \<Rightarrow>
          \<lparr> return_code = - 1,
            stdout = (case e_stdout of None \<Rightarrow> [] | Some out \<Rightarrow> out),
            stderr = ''Command timed out after ''
                     @ (case timeout of None \<Rightarrow> ''None'' | Some t \<Rightarrow> str_int t)
                     @ '' seconds'',
            success = False \<rparr>
      | RunRaises e \<Rightarrow>
          \<lparr> return_code = - 1, stdout = [], stderr = exn_str e, success = False \<rparr>)"

text \<open>
  What \<open>subprocess.Popen\<close> and the pipe do in a streaming run. Either the spawn raises,
  or the process starts: then \<open>readline\<close> yields the given results one after the other
  and the empty string at end of file, and \<open>wait\<close> gives the exit code. A read yields a
  line (with its newline, if it has one) or raises, as on undecodable output.
\<close>

datatype read = Line string | ReadRaises exn

datatype popen = SpawnRaises exn | Started "read list" int

text \<open>
  The caller-supplied consumer acts on a state of the caller's and may raise. The
  outcome of a streaming run records, beside the \<open>ProcessResult\<close>, the commands handed to
  \<open>Popen\<close>, the arguments the consumer was called with, and the consumer's state.
\<close>

type_synonym 's consumer = "string \<Rightarrow> 's \<Rightarrow> exn option \<times> 's"

record 's stream_run =
  result :: ProcessResult
  popen_calls :: "string list list"
  consumer_calls :: "string list"
  consumer_state :: 's

text \<open>
  The loop \<open>for line in iter(process.stdout.readline, '')\<close>: it ends at the first empty
  read; every other line is appended to \<open>stdout_lines\<close> and handed, right-stripped, to
  the consumer. \<open>Inl\<close> is an exception leaving the loop.
\<close>

fun drain :: "'s consumer \<Rightarrow> read list \<Rightarrow> string list \<Rightarrow> string list \<Rightarrow> 's
    \<Rightarrow> (exn + string list) \<times> string list \<times> 's" where
  "drain output_callback [] stdout_lines calls s = (Inr stdout_lines, calls, s)"
| "drain output_callback (ReadRaises e # rest) stdout_lines calls s = (Inl e, calls, s)"
| "drain output_callback (Line line # rest) stdout_lines calls s =
     (if line = [] then (Inr stdout_lines, calls, s)
      else (case output_callback (rstrip line) s of
              (Some e, s') \<Rightarrow> (Inl e, calls @ [rstrip line], s')
            | (None, s') \<Rightarrow>
                drain output_callback rest (stdout_lines @ [line]) (calls @ [rstrip line]) s'))"

definition run_command_stream ::
    "popen \<Rightarrow> string list \<Rightarrow> 's consumer \<Rightarrow> 's \<Rightarrow> 's stream_run" where
  "run_command_stream process command output_callback s =
     (case process of
        SpawnRaises e \<Rightarrow>
          \<lparr> result = \<lparr> return_code = - 1, stdout = [], stderr = exn_str e, success = False \<rparr>,
            popen_calls = [command], consumer_calls = [], consumer_state = s \<rparr>
      | Started reads returncode \<Rightarrow>
          (case drain output_callback reads [] [] s of
             (Inl e, calls, s') \<Rightarrow>
               \<lparr> result = \<lparr> return_code = - 1, stdout = [], stderr = exn_str e,
                            success = False \<rparr>,
                 popen_calls = [command], consumer_calls = calls, consumer_state = s' \<rparr>
           | (Inr stdout_lines, calls, s') \<Rightarrow>
               \<lparr> result = \<lparr> return_code = returncode, stdout = concat stdout_lines,
                            stderr = [], success = (returncode = 0) \<rparr>,
                 popen_calls = [command], consumer_calls = calls, consumer_state = s' \<rparr>))"

text \<open>
  A process that emits lines and exits: every read is a non-empty line. The lines it
  emits, and a line without its trailing newline.
\<close>

fun emitted_line :: "read \<Rightarrow> bool" where
  "emitted_line (Line l) = (l \<noteq> [])"
| "emitted_line (ReadRaises e) = False"

fun line_of :: "read \<Rightarrow> string" where
  "line_of (Line l) = l"
| "line_of (ReadRaises e) = []"

definition strip_newline :: "string \<Rightarrow> string" where
  "strip_newline l = (if l \<noteq> [] \<and> last l = CHR 0x0A then butlast l else l)"

text \<open>A consumer that only returns: it raises on no line, in no state.\<close>

definition returns_normally :: "'s consumer \<Rightarrow> bool" where
  "returns_normally cb = (\<forall>l s. fst (cb l s) = None)"

section \<open>The build supervisor: \<open>BuildWorker.run\<close>\<close>

datatype BuildStatus = IDLE | RUNNING | SUCCESS | FAILED | CANCELLED

record BuildResult =
  status :: BuildStatus
  output_path :: "string option"
  error_message :: string
  build_time :: real

text \<open>The three Qt signals of the worker, in the order they are emitted.\<close>

datatype signal = output_line string | build_finished BuildResult | status_changed string

text \<open>
  \<open>self._cancelled\<close> is written by \<open>cancel()\<close> on another thread. \<open>run\<close> reads it once
  per relayed line and once after the streaming run; the \<open>i\<close>-th read, in program
  order, sees \<open>flag i\<close>. The state of the run is what it has emitted so far and how
  often it has read the flag.
\<close>

record run_state =
  emitted :: "signal list"
  flag_reads :: nat

definition output_callback :: "(nat \<Rightarrow> bool) \<Rightarrow> run_state consumer" where
  "output_callback flag line s =
     (None,
      if \<not> flag (flag_reads s)
      then s \<lparr> emitted := emitted s @ [output_line line], flag_reads := Suc (flag_reads s) \<rparr>
      else s \<lparr> flag_reads := Suc (flag_reads s) \<rparr>)"

record run_outcome =
  signals :: "signal list"
  spawned :: "string list list"

text \<open>
  \<open>run\<close>, with \<open>time.time()\<close> read as \<open>start_time\<close> at entry and as \<open>end_time\<close> after
  the streaming run or in the handler. The calls to the logger are left out.
\<close>

definition run :: "host \<Rightarrow> popen \<Rightarrow> (nat \<Rightarrow> bool) \<Rightarrow> real \<Rightarrow> real \<Rightarrow> BuildWorker \<Rightarrow> run_outcome" where
  "run h process flag start_time end_time w =
     (let out = [status_changed ''Preparing build...'']
      in case build_command h w of
           Inl e \<Rightarrow>
             \<lparr> signals = out @ [build_finished
                   \<lparr> status = FAILED, output_path = None, error_message = exn_str e,
                     build_time = end_time - start_time \<rparr>],
               spawned = [] \<rparr>
         | Inr cmd \<Rightarrow>
             (let out = out @ [output_line (''>>> '' @ join_space cmd @ [CHR 0x0A])];
                  out = out @ [status_changed ''Building...''];
                  r = run_command_stream process cmd (output_callback flag)
                        \<lparr> emitted = out, flag_reads = 0 \<rparr>;
                  out = emitted (consumer_state r);
                  build_time = end_time - start_time
              in if flag (flag_reads (consumer_state r))
                 then \<lparr> signals = out @ [build_finished
                          \<lparr> status = CANCELLED, output_path = None, error_message = [],
                            build_time = build_time \<rparr>],
                        spawned = popen_calls r \<rparr>
                 else if success (result r)
                 then \<lparr> signals = out @ [build_finished
                          \<lparr> status = SUCCESS,
                            output_path = (if output_dir (config w) \<noteq> []
                                           then Some (output_dir (config w)) else None),
                            error_message = [], build_time = build_time \<rparr>],
                        spawned = popen_calls r \<rparr>
                 else \<lparr> signals = out @ [build_finished
                          \<lparr> status = FAILED, output_path = None,
                            error_message = (if stderr (result r) \<noteq> [] then stderr (result r)
                                             else ''Build failed''),
                            build_time = build_time \<rparr>],
                        spawned = popen_calls r \<rparr>))"

text \<open>The terminal results among the emitted signals.\<close>

fun finished :: "signal list \<Rightarrow> BuildResult list" where
  "finished [] = []"
| "finished (build_finished r # xs) = r # finished xs"
| "finished (x # xs) = finished xs"

text \<open>How many lines the streaming run relays before it returns.\<close>

fun lines_read :: "popen \<Rightarrow> nat" where
  "lines_read (SpawnRaises e) = 0"
| "lines_read (Started reads returncode) = length (takeWhile emitted_line reads)"

section \<open>The environment orchestrator: \<open>VenvWorker._install_requirements\<close>\<close>

text \<open>
  A \<open>Path\<close> is its string; \<open>p / name\<close> joins with the separator of the platform.
\<close>

definition joinpath :: "host \<Rightarrow> string \<Rightarrow> string \<Rightarrow> string" where
  "joinpath h p name = p @ (if win32 h then [CHR 0x5C] else ''/'') @ name"

record VenvWorker =
  operation :: string
  venv_path :: string
  requirements_path' :: "string option"

datatype venv_signal = venv_output_line string | operation_finished bool string | progress string

definition venv_output_callback :: "venv_signal list consumer" where
  "venv_output_callback line out = (None, out @ [venv_output_line line])"

record venv_outcome =
  venv_signals :: "venv_signal list"
  venv_spawned :: "string list list"

text \<open>The installer of the environment, by the convention of the platform.\<close>

definition pip_path :: "host \<Rightarrow> VenvWorker \<Rightarrow> string" where
  "pip_path h w =
     (if win32 h then joinpath h (joinpath h (venv_path w) ''Scripts'') ''pip.exe''
      else joinpath h (joinpath h (venv_path w) ''bin'') ''pip'')"

text \<open>
  \<open>_install_requirements\<close>. A \<open>Path\<close> object is true, so the first test fails only
  for \<open>None\<close> or a path that does not exist.
\<close>

definition install_requirements :: "host \<Rightarrow> popen \<Rightarrow> VenvWorker \<Rightarrow> venv_outcome" where
  "install_requirements h process w =
     (case requirements_path' w of
        None \<Rightarrow>
          \<lparr> venv_signals = [operation_finished False ''Requirements file not found''],
            venv_spawned = [] \<rparr>
      | Some requirements \<Rightarrow>
          if \<not> path_exists h requirements
          then \<lparr> venv_signals = [operation_finished False ''Requirements file not found''],
                 venv_spawned = [] \<rparr>
          else
           (let out = [progress ''Installing requirements...''];
                pip_path = pip_path h w
            in if \<not> path_exists h pip_path
               then \<lparr> venv_signals =
                        out @ [operation_finished False ''Pip not found in virtual environment''],
                      venv_spawned = [] \<rparr>
               else
                (let cmd = [pip_path, ''install'', ''-r'', requirements];
                     r = run_command_stream process cmd venv_output_callback out;
                     out = consumer_state r
                 in if success (result r)
                    then \<lparr> venv_signals = out @ [operation_finished True ''Requirements installed''],
                           venv_spawned = popen_calls r \<rparr>
                    else \<lparr> venv_signals =
                             out @ [operation_finished False (''Failed: '' @ stderr (result r))],
                           venv_spawned = popen_calls r \<rparr>)))"

section \<open>The plugin registry: \<open>app/core/plugin_loader.py\<close>\<close>

record PluginInfo =
  name :: string
  description :: string
  version :: string
  author :: string
  plugin_type :: string
  enabled :: bool

text \<open>
  A plugin instance: the class it derives from, its metadata, and its methods
  \<open>get_info\<close> and \<open>execute\<close>. Executing returns a boolean or raises.
\<close>

datatype plugin_class = PluginBase | BuildProcessorPlugin | PostBuildPlugin

datatype executed = Returns bool | Raises exn

record 'c plugin =
  base :: plugin_class
  NAME :: string
  DESCRIPTION :: string
  VERSION :: string
  AUTHOR :: string
  PLUGIN_TYPE :: string
  get_info :: PluginInfo
  execute :: "'c \<Rightarrow> executed"

text \<open>\<open>PluginBase.get_info\<close>, which a plugin inherits unless it overrides it.\<close>

definition base_get_info :: "('c, 'z) plugin_scheme \<Rightarrow> PluginInfo" where
  "base_get_info p = \<lparr> name = NAME p, description = DESCRIPTION p, version = VERSION p,
     author = AUTHOR p, plugin_type = PLUGIN_TYPE p, enabled = True \<rparr>"

text \<open>
  A Python \<open>dict\<close> keeps its keys in insertion order: an association list with distinct
  keys. \<open>d[k] = v\<close> replaces the value of a key that is present, in place, and appends
  the pair otherwise.
\<close>

fun dict_set :: "('k \<times> 'v) list \<Rightarrow> 'k \<Rightarrow> 'v \<Rightarrow> ('k \<times> 'v) list" where
  "dict_set [] k v = [(k, v)]"
| "dict_set ((k', v') # d) k v = (if k' = k then (k, v) # d else (k', v') # dict_set d k v)"

type_synonym 'c registry = "(string \<times> 'c plugin) list"

text \<open>\<open>self.plugins[plugin_instance.NAME] = plugin_instance\<close> of \<open>_load_plugin_file\<close>.\<close>

definition register :: "'c registry \<Rightarrow> 'c plugin \<Rightarrow> 'c registry" where
  "register plugins plugin_instance = dict_set plugins (NAME plugin_instance) plugin_instance"

definition get_plugin :: "'c registry \<Rightarrow> string \<Rightarrow> 'c plugin option" where
  "get_plugin plugins nm = map_of plugins nm"

definition get_post_build_plugins :: "'c registry \<Rightarrow> 'c plugin list" where
  "get_post_build_plugins plugins = [p \<leftarrow> map snd plugins. base p = PostBuildPlugin]"

text \<open>
  \<open>execute_plugin\<close> returns the boolean; \<open>invoked\<close> collects the names of the plugins
  whose \<open>execute\<close> has been called.
\<close>

definition execute_plugin ::
    "'c registry \<Rightarrow> string \<Rightarrow> 'c \<Rightarrow> string list \<Rightarrow> bool \<times> string list" where
  "execute_plugin plugins nm context invoked =
     (case get_plugin plugins nm of
        Some plugin \<Rightarrow>
          (case execute plugin context of
             Returns b \<Rightarrow> (b, invoked @ [nm])
           | Raises e \<Rightarrow> (False, invoked @ [nm]))
      | None \<Rightarrow> (False, invoked))"

definition post_build_step ::
    "'c registry \<Rightarrow> 'c \<Rightarrow> (string \<times> bool) list \<times> string list \<Rightarrow> 'c plugin
     \<Rightarrow> (string \<times> bool) list \<times> string list" where
  "post_build_step plugins context acc plugin =
     (let info = get_info plugin
      in if enabled info
         then (let (b, invoked) = execute_plugin plugins (NAME plugin) context (snd acc)
               in (dict_set (fst acc) (NAME plugin) b, invoked))
         else acc)"

definition execute_post_build_plugins ::
    "'c registry \<Rightarrow> 'c \<Rightarrow> (string \<times> bool) list \<times> string list" where
  "execute_post_build_plugins plugins context =
     foldl (post_build_step plugins context) ([], []) (get_post_build_plugins plugins)"

text \<open>What \<open>execute_plugin\<close> makes of an execution.\<close>

fun outcome_bool :: "executed \<Rightarrow> bool" where
  "outcome_bool (Returns b) = b"
| "outcome_bool (Raises e) = False"

section \<open>Inputs for the examples\<close>

definition no_file :: "string \<Rightarrow> bool" where
  "no_file p = False"

definition linux_host :: host where
  "linux_host = \<lparr> win32 = False, path_exists = no_file \<rparr>"

definition windows_host :: host where
  "windows_host = \<lparr> win32 = True, path_exists = no_file \<rparr>"

definition sample_worker :: BuildWorker where
  "sample_worker = \<lparr> config = default_config \<lparr> script_path := ''app.py'' \<rparr>,
     python_path = ''python'' \<rparr>"

definition never :: "nat \<Rightarrow> bool" where
  "never i = False"

definition always :: "nat \<Rightarrow> bool" where
  "always i = True"

section \<open>The claims as predicates\<close>

text \<open>
  The strings a caller controls that the builder copies into the command: the
  interpreter, the output directory, the application name, the icon, the script, the
  trimmed list entries and the tokens of the extra arguments.
\<close>

definition caller_strings :: "BuildWorker \<Rightarrow> string list" where
  "caller_strings w =
     [python_path w, output_dir (config w), app_name (config w), icon_path (config w),
      script_path (config w)]
     @ map strip (hidden_imports (config w))
     @ map strip (exclude_modules (config w))
     @ map strip (data_files (config w))
     @ split (additional_args (config w))"

text \<open>The command is built, holds the flag of its output mode and not the other one.\<close>

definition mode_flag_exclusive :: "host \<Rightarrow> BuildWorker \<Rightarrow> bool" where
  "mode_flag_exclusive h w =
     (case build_command h w of
        Inl e \<Rightarrow> False
      | Inr cmd \<Rightarrow>
          (if one_file (config w)
           then ''--onefile'' \<in> set cmd \<and> ''--onedir'' \<notin> set cmd
           else ''--onedir'' \<in> set cmd \<and> ''--onefile'' \<notin> set cmd))"

text \<open>
  Two consumers for the examples, one that records its argument and one that raises on
  its first call, and a worker whose configuration has no script path.
\<close>

definition log_consumer :: "string list consumer" where
  "log_consumer line s = (None, s @ [line])"

definition failing_consumer :: "string list consumer" where
  "failing_consumer line s = (Some (Exception ''consumer failed''), s @ [line])"

definition unconfigured_worker :: BuildWorker where
  "unconfigured_worker = \<lparr> config = default_config, python_path = ''python'' \<rparr>"

text \<open>
  A host on which only \<open>requirements.txt\<close> exists, and an install worker for the
  environment \<open>venvs/demo\<close>.
\<close>

definition only_requirements :: "string \<Rightarrow> bool" where
  "only_requirements p = (p = ''requirements.txt'')"

definition bare_host :: host where
  "bare_host = \<lparr> win32 = False, path_exists = only_requirements \<rparr>"

definition install_worker :: "string option \<Rightarrow> VenvWorker" where
  "install_worker req = \<lparr> operation = ''install'', venv_path = ''venvs/demo'',
     requirements_path' = req \<rparr>"

text \<open>Post-build plugins with the metadata of the base class, for the examples.\<close>

definition returns_true :: "unit \<Rightarrow> executed" where
  "returns_true context = Returns True"

definition raises_error :: "unit \<Rightarrow> executed" where
  "raises_error context = Raises (Exception ''plugin failed'')"

definition post_build_plugin :: "string \<Rightarrow> (unit \<Rightarrow> executed) \<Rightarrow> unit plugin" where
  "post_build_plugin nm body =
     \<lparr> base = PostBuildPlugin, NAME = nm, DESCRIPTION = ''Base plugin description'',
       VERSION = ''1.0.0'', AUTHOR = ''Unknown'', PLUGIN_TYPE = ''post_build'',
       get_info = \<lparr> name = nm, description = ''Base plugin description'', version = ''1.0.0'',
         author = ''Unknown'', plugin_type = ''post_build'', enabled = True \<rparr>,
       execute = body \<rparr>"

text \<open>
  The consumer raises on none of the calls a run makes for the given reads: not on the
  first line in the given state, not on the next in the state the first call leaves,
  and so on. A consumer that raises on the line \<open>boom\<close> only.
\<close>

fun raises_on_none :: "'s consumer \<Rightarrow> read list \<Rightarrow> 's \<Rightarrow> bool" where
  "raises_on_none cb [] s = True"
| "raises_on_none cb (r # reads) s =
     (fst (cb (rstrip (line_of r)) s) = None
      \<and> raises_on_none cb reads (snd (cb (rstrip (line_of r)) s)))"

definition picky_consumer :: "string list consumer" where
  "picky_consumer line s =
     (if line = ''boom'' then Some (Exception ''consumer failed'') else None, s @ [line])"

text \<open>
  The names whose entry in a result map is false, and a plugin body that reports failure
  by returning false.
\<close>

definition false_entries :: "(string \<times> bool) list \<Rightarrow> string list" where
  "false_entries results = map fst (filter (\<lambda>entry. \<not> snd entry) results)"

definition returns_false :: "unit \<Rightarrow> executed" where
  "returns_false context = Returns False"

section \<open>Properties\<close>

text \<open>
  C1. For the configuration with script path \<open>app.py\<close>, single-file mode, console off,
  clean build and output directory \<open>out\<close>, every other field at its default, the
  builder returns the interpreter prefix followed by exactly
  \<open>--onefile --noconsole --clean --noconfirm --distpath out app.py\<close>, the script path
  last, on every platform and file system.
\<close>

theorem build_command_example:
  "build_command h \<lparr> config = default_config \<lparr> script_path := ''app.py'', one_file := True,
       console_mode := False, clean_build := True, output_dir := ''out'' \<rparr>,
     python_path = py \<rparr>
   = Inr ([py, ''-m'', ''PyInstaller''] @
          [''--onefile'', ''--noconsole'', ''--clean'', ''--noconfirm'', ''--distpath'', ''out'',
           ''app.py''])"
  by (simp add: build_command_def default_config_def)

subsection \<open>The command builder\<close>

lemma isspace_simps [simp]: "isspace CHR ''-'' = False" "isspace CHR '';'' = False"
  by (simp_all add: isspace_def)

lemma foldl_hidden: "foldl add_hidden_import cmd xs
   = cmd @ concat (map (\<lambda>x. [''--hidden-import'', strip x]) (filter (\<lambda>x. strip x \<noteq> []) xs))"
  by (induction xs arbitrary: cmd) (simp_all add: add_hidden_import_def)

lemma foldl_exclude: "foldl add_exclude_module cmd xs
   = cmd @ concat (map (\<lambda>x. [''--exclude-module'', strip x]) (filter (\<lambda>x. strip x \<noteq> []) xs))"
  by (induction xs arbitrary: cmd) (simp_all add: add_exclude_module_def)

lemma foldl_data: "foldl (add_data_file sep) cmd xs
   = cmd @ concat (map (\<lambda>x. [''--add-data'', replace (CHR '';'') sep (strip x)])
                    (filter (\<lambda>x. strip x \<noteq> []) xs))"
  by (induction xs arbitrary: cmd) (simp_all add: add_data_file_def)


lemma replace_flag:
  assumes "replace (CHR '';'') (path_sep h) s = f" "CHR '';'' \<notin> set f" "CHR '':'' \<notin> set f"
  shows "s = f"
proof -
  have "\<forall>c \<in> set s. c \<noteq> CHR '';''"
  proof
    fix c assume "c \<in> set s"
    show "c \<noteq> CHR '';''"
    proof
      assume "c = CHR '';''"
      with \<open>c \<in> set s\<close> have "path_sep h \<in> set (replace (CHR '';'') (path_sep h) s)"
        by (force simp: replace_def)
      with assms show False by (auto simp: path_sep_def split: if_splits)
    qed
  qed
  then have "replace (CHR '';'') (path_sep h) s = s"
    by (simp add: replace_def map_idI)
  with assms show ?thesis by simp
qed

lemma build_command_segments:
  assumes "script_path (config w) \<noteq> []"
  shows "build_command h w =
     Inr ([python_path w, ''-m'', ''PyInstaller'']
          @ [if one_file (config w) then ''--onefile'' else ''--onedir'']
          @ (if \<not> console_mode (config w) then [''--noconsole''] else [])
          @ (if clean_build (config w) then [''--clean''] else [])
          @ [''--noconfirm'']
          @ (if output_dir (config w) \<noteq> [] then [''--distpath'', output_dir (config w)] else [])
          @ (if app_name (config w) \<noteq> [] then [''--name'', app_name (config w)] else [])
          @ (if icon_path (config w) \<noteq> [] \<and> path_exists h (icon_path (config w))
             then [''--icon'', icon_path (config w)] else [])
          @ concat (map (\<lambda>x. [''--hidden-import'', strip x])
                     (filter (\<lambda>x. strip x \<noteq> []) (hidden_imports (config w))))
          @ concat (map (\<lambda>x. [''--exclude-module'', strip x])
                     (filter (\<lambda>x. strip x \<noteq> []) (exclude_modules (config w))))
          @ concat (map (\<lambda>x. [''--add-data'', replace (CHR '';'') (path_sep h) (strip x)])
                     (filter (\<lambda>x. strip x \<noteq> []) (data_files (config w))))
          @ split (additional_args (config w))
          @ [script_path (config w)])"
proof -
  have sp: "split [] = []" by (simp add: split_def)
  show ?thesis
    using assms
    by (simp add: build_command_def Let_def foldl_hidden foldl_exclude foldl_data sp)
qed

lemma in_optional: "x \<in> set (if b then xs else []) \<longleftrightarrow> b \<and> x \<in> set xs"
  by simp

lemma flag_in_command:
  assumes "script_path (config w) \<noteq> []" and "build_command h w = Inr cmd"
  shows "(if one_file (config w) then ''--onefile'' else ''--onedir'') \<in> set cmd"
proof -
  from build_command_segments [OF assms(1), of h] assms(2)
  obtain rest where "cmd = [python_path w, ''-m'', ''PyInstaller'']
      @ [if one_file (config w) then ''--onefile'' else ''--onedir''] @ rest"
    by simp
  then show ?thesis by simp
qed

lemma other_flag_not_in_command:
  assumes "script_path (config w) \<noteq> []" and "build_command h w = Inr cmd"
    and f: "f = ''--onedir'' \<or> f = ''--onefile''"
    and other: "f \<noteq> (if one_file (config w) then ''--onefile'' else ''--onedir'')"
    and n: "f \<notin> set (caller_strings w)"
  shows "f \<notin> set cmd"
proof -
  have d: "\<And>x. replace (CHR '';'') (path_sep h) (strip x) = f \<Longrightarrow> strip x = f"
    using f by (auto intro: replace_flag)
  have 1: "f \<notin> set [python_path w, ''-m'', ''PyInstaller'']"
    using n f by (auto simp: caller_strings_def)
  have 2: "f \<notin> set [if one_file (config w) then ''--onefile'' else ''--onedir'']"
    using other by simp
  have 3: "f \<notin> set (if \<not> console_mode (config w) then [''--noconsole''] else [])"
    using f by (auto simp: in_optional)
  have 4: "f \<notin> set (if clean_build (config w) then [''--clean''] else [])"
    using f by (auto simp: in_optional)
  have 5: "f \<notin> set [''--noconfirm'']"
    using f by auto
  have 6: "f \<notin> set (if output_dir (config w) \<noteq> [] then [''--distpath'', output_dir (config w)] else [])"
    using n f unfolding in_optional by (auto simp: caller_strings_def)
  have 7: "f \<notin> set (if app_name (config w) \<noteq> [] then [''--name'', app_name (config w)] else [])"
    using n f unfolding in_optional by (auto simp: caller_strings_def)
  have 8: "f \<notin> set (if icon_path (config w) \<noteq> [] \<and> path_exists h (icon_path (config w))
             then [''--icon'', icon_path (config w)] else [])"
    using n f unfolding in_optional by (auto simp: caller_strings_def)
  have 9: "f \<notin> set (concat (map (\<lambda>x. [''--hidden-import'', strip x])
                     (filter (\<lambda>x. strip x \<noteq> []) (hidden_imports (config w)))))"
    using n f by (auto simp: caller_strings_def)
  have 10: "f \<notin> set (concat (map (\<lambda>x. [''--exclude-module'', strip x])
                     (filter (\<lambda>x. strip x \<noteq> []) (exclude_modules (config w)))))"
    using n f by (auto simp: caller_strings_def)
  have 11: "f \<notin> set (concat (map (\<lambda>x. [''--add-data'', replace (CHR '';'') (path_sep h) (strip x)])
                     (filter (\<lambda>x. strip x \<noteq> []) (data_files (config w)))))"
  proof
    assume "f \<in> set (concat (map (\<lambda>x. [''--add-data'', replace (CHR '';'') (path_sep h) (strip x)])
                     (filter (\<lambda>x. strip x \<noteq> []) (data_files (config w)))))"
    then obtain x where x: "x \<in> set (data_files (config w))"
        and "f = ''--add-data'' \<or> f = replace (CHR '';'') (path_sep h) (strip x)"
      by (auto split: if_splits)
    with f have "replace (CHR '';'') (path_sep h) (strip x) = f" by auto
    then have "strip x = f" by (rule d)
    with x have "f \<in> set (caller_strings w)" by (force simp: caller_strings_def)
    with n show False by simp
  qed
  have 12: "f \<notin> set (split (additional_args (config w)))"
    using n by (simp add: caller_strings_def)
  have 13: "f \<notin> set [script_path (config w)]"
    using n by (simp add: caller_strings_def)
  from build_command_segments [OF assms(1), of h] assms(2)
  have "cmd = [python_path w, ''-m'', ''PyInstaller'']
          @ [if one_file (config w) then ''--onefile'' else ''--onedir'']
          @ (if \<not> console_mode (config w) then [''--noconsole''] else [])
          @ (if clean_build (config w) then [''--clean''] else [])
          @ [''--noconfirm'']
          @ (if output_dir (config w) \<noteq> [] then [''--distpath'', output_dir (config w)] else [])
          @ (if app_name (config w) \<noteq> [] then [''--name'', app_name (config w)] else [])
          @ (if icon_path (config w) \<noteq> [] \<and> path_exists h (icon_path (config w))
             then [''--icon'', icon_path (config w)] else [])
          @ concat (map (\<lambda>x. [''--hidden-import'', strip x])
                     (filter (\<lambda>x. strip x \<noteq> []) (hidden_imports (config w))))
          @ concat (map (\<lambda>x. [''--exclude-module'', strip x])
                     (filter (\<lambda>x. strip x \<noteq> []) (exclude_modules (config w))))
          @ concat (map (\<lambda>x. [''--add-data'', replace (CHR '';'') (path_sep h) (strip x)])
                     (filter (\<lambda>x. strip x \<noteq> []) (data_files (config w))))
          @ split (additional_args (config w))
          @ [script_path (config w)]"
    by simp
  then have "set cmd = set [python_path w, ''-m'', ''PyInstaller'']
          \<union> set [if one_file (config w) then ''--onefile'' else ''--onedir'']
          \<union> set (if \<not> console_mode (config w) then [''--noconsole''] else [])
          \<union> set (if clean_build (config w) then [''--clean''] else [])
          \<union> set [''--noconfirm'']
          \<union> set (if output_dir (config w) \<noteq> [] then [''--distpath'', output_dir (config w)] else [])
          \<union> set (if app_name (config w) \<noteq> [] then [''--name'', app_name (config w)] else [])
          \<union> set (if icon_path (config w) \<noteq> [] \<and> path_exists h (icon_path (config w))
             then [''--icon'', icon_path (config w)] else [])
          \<union> set (concat (map (\<lambda>x. [''--hidden-import'', strip x])
                     (filter (\<lambda>x. strip x \<noteq> []) (hidden_imports (config w)))))
          \<union> set (concat (map (\<lambda>x. [''--exclude-module'', strip x])
                     (filter (\<lambda>x. strip x \<noteq> []) (exclude_modules (config w)))))
          \<union> set (concat (map (\<lambda>x. [''--add-data'', replace (CHR '';'') (path_sep h) (strip x)])
                     (filter (\<lambda>x. strip x \<noteq> []) (data_files (config w)))))
          \<union> set (split (additional_args (config w)))
          \<union> set [script_path (config w)]"
    by (simp only: set_append Un_assoc)
  with 1 2 3 4 5 6 7 8 9 10 11 12 13 show ?thesis
    by (simp only: Un_iff) blast
qed

text \<open>
  C9, as stated: every configuration with a script path yields a command with the flag
  of its output mode and without the other flag. It fails where the caller supplies the
  other flag: with the extra arguments \<open>--onedir\<close> and \<open>one_file\<close> set, the command
  holds both \<open>--onefile\<close> and \<open>--onedir\<close>.
\<close>

theorem mode_flag_exclusive_counterexample:
  "\<not> mode_flag_exclusive linux_host
     (sample_worker \<lparr> config := (config sample_worker) \<lparr> additional_args := ''--onedir'' \<rparr> \<rparr>)"
  by (simp add: mode_flag_exclusive_def build_command_def sample_worker_def default_config_def
      split_def isspace_def)

text \<open>
  C9, amended: for every configuration with a non-empty script path, the builder returns
  a command that contains the flag of the output mode (\<open>--onefile\<close> when \<open>one_file\<close>,
  \<open>--onedir\<close> otherwise); and the command does not contain the other flag unless a
  string the caller supplies is that flag.
\<close>

theorem mode_flag_exclusive_unless_supplied:
  assumes "script_path (config w) \<noteq> []"
  shows "\<exists>cmd. build_command h w = Inr cmd
    \<and> (if one_file (config w) then ''--onefile'' else ''--onedir'') \<in> set cmd
    \<and> ((if one_file (config w) then ''--onedir'' else ''--onefile'') \<notin> set (caller_strings w)
        \<longrightarrow> (if one_file (config w) then ''--onedir'' else ''--onefile'') \<notin> set cmd
            \<and> mode_flag_exclusive h w)"
proof -
  from build_command_segments [OF assms, of h]
  obtain cmd where cmd: "build_command h w = Inr cmd" by blast
  let ?f = "if one_file (config w) then ''--onedir'' else ''--onefile''"
  have own: "(if one_file (config w) then ''--onefile'' else ''--onedir'') \<in> set cmd"
    by (rule flag_in_command [OF assms cmd])
  have other: "?f \<notin> set cmd \<and> mode_flag_exclusive h w" if n: "?f \<notin> set (caller_strings w)"
  proof -
    have "?f \<notin> set cmd"
      by (rule other_flag_not_in_command [OF assms cmd _ _ n]) simp_all
    with own show ?thesis
      by (simp add: mode_flag_exclusive_def cmd split: if_splits)
  qed
  from cmd own other show ?thesis by blast
qed

theorem mode_flag_exclusive_unless_supplied_witness:
  "script_path (config sample_worker) \<noteq> []
   \<and> (if one_file (config sample_worker) then ''--onedir'' else ''--onefile'')
       \<notin> set (caller_strings sample_worker)
   \<and> mode_flag_exclusive linux_host sample_worker"
proof -
  have 1: "script_path (config sample_worker) \<noteq> []"
    by (simp add: sample_worker_def default_config_def)
  have 2: "(if one_file (config sample_worker) then ''--onedir'' else ''--onefile'')
       \<notin> set (caller_strings sample_worker)"
    by (simp add: sample_worker_def default_config_def caller_strings_def split_def)
  from 1 2 mode_flag_exclusive_unless_supplied [OF 1, of linux_host] show ?thesis by blast
qed

lemma in_dropWhile: "x \<in> set xs \<Longrightarrow> \<not> P x \<Longrightarrow> x \<in> set (dropWhile P xs)"
  by (induction xs) auto

lemma in_strip: "c \<in> set s \<Longrightarrow> \<not> isspace c \<Longrightarrow> c \<in> set (strip s)"
  by (simp add: strip_def lstrip_def rstrip_def in_dropWhile)

lemma dropWhile_append_keep:
  assumes d: "dropWhile P xs = xs" and c: "\<not> P c"
  shows "dropWhile P (xs @ c # ys) = xs @ c # ys"
proof (cases xs)
  case Nil
  with c show ?thesis by simp
next
  case (Cons a list)
  have "\<not> P a"
  proof
    assume "P a"
    with Cons d have "dropWhile P list = a # list" by simp
    then have "length (dropWhile P list) = Suc (length list)" by simp
    with length_dropWhile_le [of P list] show False by simp
  qed
  with Cons show ?thesis by simp
qed

lemma strip_entry:
  assumes "lstrip src = src" and "rstrip dest = dest"
  shows "strip (src @ '';'' @ dest) = src @ '';'' @ dest"
proof -
  from assms(2) have "dropWhile isspace (rev dest) = rev dest"
    by (simp add: rstrip_def rev_swap)
  then have "dropWhile isspace (rev dest @ CHR '';'' # rev src) = rev dest @ CHR '';'' # rev src"
    by (rule dropWhile_append_keep) simp
  then have r: "rstrip (src @ '';'' @ dest) = src @ '';'' @ dest"
    by (simp add: rstrip_def)
  from assms(1) have "dropWhile isspace (src @ CHR '';'' # dest) = src @ CHR '';'' # dest"
    unfolding lstrip_def by (rule dropWhile_append_keep) simp
  with r show ?thesis by (simp add: strip_def lstrip_def)
qed

lemma replace_absent: "old \<notin> set s \<Longrightarrow> replace old new s = s"
  by (induction s) (auto simp: replace_def)

lemma replace_append: "replace old new (xs @ ys) = replace old new xs @ replace old new ys"
  by (simp add: replace_def)

lemma replace_entry:
  assumes "CHR '';'' \<notin> set src" and "CHR '';'' \<notin> set dest"
  shows "replace (CHR '';'') sep (src @ '';'' @ dest) = src @ [sep] @ dest"
proof -
  have "replace (CHR '';'') sep (src @ '';'' @ dest)
      = replace (CHR '';'') sep src @ replace (CHR '';'') sep '';'' @ replace (CHR '';'') sep dest"
    by (simp only: replace_append)
  also have "replace (CHR '';'') sep src = src"
    using assms(1) by (rule replace_absent)
  also have "replace (CHR '';'') sep dest = dest"
    using assms(2) by (rule replace_absent)
  also have "replace (CHR '';'') sep '';'' = [sep]"
    by (simp add: replace_def)
  finally show ?thesis .
qed

lemma entry_not_blank: "strip (src @ '';'' @ dest) \<noteq> []"
proof -
  have "CHR '';'' \<in> set (strip (src @ '';'' @ dest))"
    by (rule in_strip) simp_all
  then show ?thesis by auto
qed

text \<open>
  C5, as stated: an entry \<open>src;dest\<close> is emitted as \<open>src\<close>, the platform separator,
  \<open>dest\<close>, with \<open>src\<close> and \<open>dest\<close> unchanged. It fails where \<open>dest\<close> (or \<open>src\<close>)
  holds a semicolon of its own: off Windows the entry \<open>a;b;c\<close>, with \<open>src = a\<close> and
  \<open>dest = b;c\<close>, is emitted as \<open>a:b:c\<close>, not as \<open>a:b;c\<close>.
\<close>

theorem add_data_file_counterexample:
  "add_data_file (path_sep linux_host) [] (''a'' @ '';'' @ ''b;c'')
   \<noteq> [''--add-data'', ''a'' @ [path_sep linux_host] @ ''b;c'']"
  by (simp add: add_data_file_def path_sep_def linux_host_def strip_def lstrip_def rstrip_def
      replace_def isspace_def)

text \<open>
  C5, amended: every entry \<open>src;dest\<close> is non-blank, and the emitted \<open>--add-data\<close>
  argument is the entry trimmed of surrounding whitespace with every semicolon replaced
  by the platform separator. When neither \<open>src\<close> nor \<open>dest\<close> holds a semicolon, \<open>src\<close>
  does not begin and \<open>dest\<close> does not end with whitespace, that argument is \<open>src\<close>, the
  separator, \<open>dest\<close>: one replacement, both parts unchanged.
\<close>

theorem add_data_file_separator:
  "add_data_file (path_sep h) cmd (src @ '';'' @ dest)
     = cmd @ [''--add-data'', replace (CHR '';'') (path_sep h) (strip (src @ '';'' @ dest))]
   \<and> (CHR '';'' \<notin> set src \<and> CHR '';'' \<notin> set dest \<and> lstrip src = src \<and> rstrip dest = dest
        \<longrightarrow> add_data_file (path_sep h) cmd (src @ '';'' @ dest)
            = cmd @ [''--add-data'', src @ [path_sep h] @ dest])"
  using entry_not_blank [of src dest]
  by (simp add: add_data_file_def strip_entry replace_entry del: append.simps)

theorem add_data_file_separator_witness:
  "(CHR '';'' \<notin> set ''assets/icon.png'' \<and> CHR '';'' \<notin> set ''assets''
        \<and> lstrip ''assets/icon.png'' = ''assets/icon.png'' \<and> rstrip ''assets'' = ''assets'')
   \<and> add_data_file (path_sep linux_host) [] (''assets/icon.png'' @ '';'' @ ''assets'')
     = [''--add-data'', ''assets/icon.png:assets'']
   \<and> add_data_file (path_sep windows_host) [] (''assets/icon.png'' @ '';'' @ ''assets'')
     = [''--add-data'', ''assets/icon.png;assets'']"
proof -
  have a: "CHR '';'' \<notin> set ''assets/icon.png'' \<and> CHR '';'' \<notin> set ''assets''
        \<and> lstrip ''assets/icon.png'' = ''assets/icon.png'' \<and> rstrip ''assets'' = ''assets''"
    by (simp add: lstrip_def rstrip_def isspace_def)
  from a add_data_file_separator [of linux_host "[]" "''assets/icon.png''" "''assets''"]
  have 1: "add_data_file (path_sep linux_host) [] (''assets/icon.png'' @ '';'' @ ''assets'')
     = [] @ [''--add-data'', ''assets/icon.png'' @ [path_sep linux_host] @ ''assets'']"
    by blast
  from a add_data_file_separator [of windows_host "[]" "''assets/icon.png''" "''assets''"]
  have 2: "add_data_file (path_sep windows_host) [] (''assets/icon.png'' @ '';'' @ ''assets'')
     = [] @ [''--add-data'', ''assets/icon.png'' @ [path_sep windows_host] @ ''assets'']"
    by blast
  from a 1 2 show ?thesis
    by (simp add: path_sep_def linux_host_def windows_host_def)
qed

subsection \<open>The process runner and the build supervisor\<close>

lemma finished_append: "finished (xs @ ys) = finished xs @ finished ys"
  by (induction xs rule: finished.induct) simp_all

lemma in_finished: "build_finished r \<in> set xs \<Longrightarrow> r \<in> set (finished xs)"
  by (induction xs rule: finished.induct) auto

lemma drain_step:
  assumes "l \<noteq> []" and "returns_normally cb"
  shows "drain cb (Line l # reads) out calls s
      = drain cb reads (out @ [l]) (calls @ [rstrip l]) (snd (cb (rstrip l) s))"
proof -
  from assms(2) have "fst (cb (rstrip l) s) = None"
    by (simp add: returns_normally_def)
  with assms(1) show ?thesis
    by (cases "cb (rstrip l) s") simp
qed

lemma drain_lines:
  assumes "\<forall>r \<in> set reads. emitted_line r" and "returns_normally cb"
  shows "drain cb reads out calls s =
     (Inr (out @ map line_of reads), calls @ map (\<lambda>r. rstrip (line_of r)) reads,
      foldl (\<lambda>s r. snd (cb (rstrip (line_of r)) s)) s reads)"
  using assms(1)
proof (induction reads arbitrary: out calls s)
  case Nil
  then show ?case by simp
next
  case (Cons r reads)
  then obtain l where r: "r = Line l" and l: "l \<noteq> []"
    by (cases r) auto
  from Cons.prems have "\<forall>r \<in> set reads. emitted_line r" by simp
  from Cons.IH [OF this] show ?case
    unfolding r drain_step [OF l assms(2)] by simp
qed

lemma output_callback_returns: "returns_normally (output_callback flag)"
  by (simp add: returns_normally_def output_callback_def)

lemma drain_output_callback:
  "drain (output_callback flag) reads out calls s = (x, calls', s')
   \<Longrightarrow> flag_reads s' = flag_reads s + length (takeWhile emitted_line reads)
       \<and> finished (emitted s') = finished (emitted s)"
proof (induction reads arbitrary: out calls s)
  case Nil
  then show ?case by simp
next
  case (Cons r reads)
  show ?case
  proof (cases r)
    case (ReadRaises e)
    with Cons.prems show ?thesis by simp
  next
    case (Line l)
    show ?thesis
    proof (cases "l = []")
      case True
      with Line Cons.prems show ?thesis by simp
    next
      case False
      let ?s = "snd (output_callback flag (rstrip l) s)"
      from Cons.prems
      have "drain (output_callback flag) reads (out @ [l]) (calls @ [rstrip l]) ?s = (x, calls', s')"
        unfolding Line drain_step [OF False output_callback_returns] .
      from Cons.IH [OF this]
      have "flag_reads s' = flag_reads ?s + length (takeWhile emitted_line reads)"
        and "finished (emitted s') = finished (emitted ?s)"
        by simp_all
      moreover have "flag_reads ?s = Suc (flag_reads s)"
        by (simp add: output_callback_def)
      moreover have "finished (emitted ?s) = finished (emitted s)"
        by (simp add: output_callback_def finished_append)
      ultimately show ?thesis using False Line by simp
    qed
  qed
qed

lemma stream_output_callback:
  "flag_reads (consumer_state (run_command_stream p cmd (output_callback flag) s))
     = flag_reads s + lines_read p
   \<and> finished (emitted (consumer_state (run_command_stream p cmd (output_callback flag) s)))
     = finished (emitted s)
   \<and> popen_calls (run_command_stream p cmd (output_callback flag) s) = [cmd]"
proof (cases p)
  case (SpawnRaises e)
  then show ?thesis by (simp add: run_command_stream_def)
next
  case (Started reads rc)
  obtain x calls' s' where d: "drain (output_callback flag) reads [] [] s = (x, calls', s')"
    by (cases "drain (output_callback flag) reads [] [] s") auto
  from drain_output_callback [OF d] Started d show ?thesis
    by (cases x) (simp_all add: run_command_stream_def)
qed


text \<open>
  C4. With an empty script path the command builder fails with the configuration error
  \<open>Script path is required\<close> and returns no command; the build then spawns no process
  and emits, after its first status label, one terminal result, \<open>FAILED\<close> with that
  description as its error message.
\<close>

theorem empty_script_path_fails:
  assumes "script_path (config w) = []"
  shows "build_command h w = Inl (ValueError ''Script path is required'')
    \<and> spawned (run h p flag t0 t1 w) = []
    \<and> signals (run h p flag t0 t1 w) =
        [status_changed ''Preparing build...'',
         build_finished \<lparr> status = FAILED, output_path = None,
           error_message = ''Script path is required'', build_time = t1 - t0 \<rparr>]"
proof -
  from assms have b: "build_command h w = Inl (ValueError ''Script path is required'')"
    by (simp add: build_command_def)
  then show ?thesis by (simp add: run_def)
qed

theorem empty_script_path_fails_witness:
  "script_path (config unconfigured_worker) = []
   \<and> build_command linux_host unconfigured_worker = Inl (ValueError ''Script path is required'')
   \<and> spawned (run linux_host (Started [] 0) never 0 1 unconfigured_worker) = []
   \<and> map status (finished (signals (run linux_host (Started [] 0) never 0 1 unconfigured_worker)))
       = [FAILED]"
proof -
  have e: "script_path (config unconfigured_worker) = []"
    by (simp add: unconfigured_worker_def default_config_def)
  from e empty_script_path_fails [OF e, of linux_host "Started [] 0" never 0 1]
  show ?thesis by simp
qed

lemma run_built:
  fixes p cmd flag
  defines "R \<equiv> run_command_stream p cmd (output_callback flag)
                \<lparr> emitted = [status_changed ''Preparing build...'',
                     output_line (''>>> '' @ join_space cmd @ [CHR 0x0A]),
                     status_changed ''Building...''], flag_reads = 0 \<rparr>"
  assumes "build_command h w = Inr cmd"
  shows "finished (signals (run h p flag t0 t1 w)) =
     [if flag (lines_read p)
      then \<lparr> status = CANCELLED, output_path = None, error_message = [],
             build_time = t1 - t0 \<rparr>
      else if success (result R)
      then \<lparr> status = SUCCESS,
             output_path = (if output_dir (config w) \<noteq> [] then Some (output_dir (config w))
                            else None),
             error_message = [], build_time = t1 - t0 \<rparr>
      else \<lparr> status = FAILED, output_path = None,
             error_message = (if stderr (result R) \<noteq> [] then stderr (result R)
                              else ''Build failed''),
             build_time = t1 - t0 \<rparr>]
   \<and> (\<exists>r. last (signals (run h p flag t0 t1 w)) = build_finished r)
   \<and> spawned (run h p flag t0 t1 w) = [cmd]"
  using stream_output_callback [of p cmd flag
      "\<lparr> emitted = [status_changed ''Preparing build...'',
                     output_line (''>>> '' @ join_space cmd @ [CHR 0x0A]),
                     status_changed ''Building...''], flag_reads = 0 \<rparr>"]
  by (simp add: run_def assms Let_def finished_append)

lemma build_command_returns:
  "script_path (config w) \<noteq> [] \<Longrightarrow> \<exists>cmd. build_command h w = Inr cmd"
  by (simp add: build_command_def Let_def)

text \<open>
  C3. When the command is built and the cancellation flag reads as set after the output
  has been drained, the run emits exactly one terminal result, as its last signal, and
  its status is \<open>CANCELLED\<close>: whatever the spawn did, whatever the exit code.
\<close>

theorem cancelled_flag_gives_cancelled:
  assumes "script_path (config w) \<noteq> []" and "flag (lines_read p)"
  shows "finished (signals (run h p flag t0 t1 w)) =
     [\<lparr> status = CANCELLED, output_path = None, error_message = [], build_time = t1 - t0 \<rparr>]
   \<and> last (signals (run h p flag t0 t1 w)) =
     build_finished
       \<lparr> status = CANCELLED, output_path = None, error_message = [], build_time = t1 - t0 \<rparr>"
proof -
  from build_command_returns [OF assms(1)] obtain cmd where "build_command h w = Inr cmd"
    by blast
  from run_built [OF this, of p flag t0 t1] assms(2)
  have f: "finished (signals (run h p flag t0 t1 w)) =
     [\<lparr> status = CANCELLED, output_path = None, error_message = [], build_time = t1 - t0 \<rparr>]"
    and "\<exists>r. last (signals (run h p flag t0 t1 w)) = build_finished r"
    by simp_all
  then obtain r where l: "last (signals (run h p flag t0 t1 w)) = build_finished r" by blast
  have "signals (run h p flag t0 t1 w) \<noteq> []"
    using f by auto
  then have "r \<in> set (finished (signals (run h p flag t0 t1 w)))"
    using l in_finished last_in_set by metis
  with f l show ?thesis by simp
qed


theorem cancelled_flag_gives_cancelled_witness:
  "script_path (config sample_worker) \<noteq> []
   \<and> always (lines_read (Started [Line (''done'' @ [CHR 0x0A])] 0))
   \<and> map status (finished (signals
         (run linux_host (Started [Line (''done'' @ [CHR 0x0A])] 0) always 0 1 sample_worker)))
       = [CANCELLED]"
proof -
  have 1: "script_path (config sample_worker) \<noteq> []"
    by (simp add: sample_worker_def default_config_def)
  have 2: "always (lines_read (Started [Line (''done'' @ [CHR 0x0A])] 0))"
    by (simp add: always_def)
  from 1 2 cancelled_flag_gives_cancelled
      [where w = sample_worker and flag = always
         and p = "Started [Line (''done'' @ [CHR 0x0A])] 0" and h = linux_host
         and ?t0.0 = 0 and ?t1.0 = 1]
  show ?thesis by simp
qed

lemma stream_lines:
  assumes "\<forall>r \<in> set reads. emitted_line r" and "returns_normally cb"
  shows "run_command_stream (Started reads rc) cmd cb s =
     \<lparr> result = \<lparr> return_code = rc, stdout = concat (map line_of reads), stderr = [],
                  success = (rc = 0) \<rparr>,
       popen_calls = [cmd],
       consumer_calls = map (\<lambda>r. rstrip (line_of r)) reads,
       consumer_state = foldl (\<lambda>s r. snd (cb (rstrip (line_of r)) s)) s reads \<rparr>"
  by (simp add: run_command_stream_def drain_lines [OF assms])

lemma lines_read_all:
  "\<forall>r \<in> set reads. emitted_line r \<Longrightarrow> lines_read (Started reads rc) = length reads"
  by (simp add: takeWhile_eq_all_conv [THEN iffD2])

lemma drain_accepted:
  assumes "\<forall>r \<in> set reads. emitted_line r" and "raises_on_none cb reads s"
  shows "drain cb reads out calls s =
     (Inr (out @ map line_of reads), calls @ map (\<lambda>r. rstrip (line_of r)) reads,
      foldl (\<lambda>s r. snd (cb (rstrip (line_of r)) s)) s reads)"
  using assms
proof (induction reads arbitrary: out calls s)
  case Nil
  then show ?case by simp
next
  case (Cons r reads)
  then obtain l where r: "r = Line l" and l: "l \<noteq> []"
    by (cases r) auto
  from Cons.prems(2) r have n: "fst (cb (rstrip l) s) = None"
    and rest: "raises_on_none cb reads (snd (cb (rstrip l) s))"
    by simp_all
  from l n have step: "drain cb (Line l # reads) out calls s
      = drain cb reads (out @ [l]) (calls @ [rstrip l]) (snd (cb (rstrip l) s))"
    by (cases "cb (rstrip l) s") simp
  from Cons.prems(1) have "\<forall>r \<in> set reads. emitted_line r" by simp
  from Cons.IH [OF this rest] show ?case
    unfolding r step by simp
qed

text \<open>
  C2, amended: when the process emits \<open>N\<close> lines and exits with code 0, and the consumer
  raises on none of them, the consumer is called \<open>N\<close> times, once per line in emission
  order, each time with the line stripped of all its trailing whitespace (the newline
  included); its state is the one these calls leave, one after the other; and the one
  result returned has exit code 0, the concatenated lines as output, and \<open>success\<close>.
  The consumer of the example raises on another line, one the process does not emit.
\<close>

theorem stream_relays_every_line:
  assumes "\<forall>r \<in> set reads. emitted_line r" and "raises_on_none cb reads s"
  shows "consumer_calls (run_command_stream (Started reads 0) cmd cb s)
           = map (\<lambda>r. rstrip (line_of r)) reads
    \<and> length (consumer_calls (run_command_stream (Started reads 0) cmd cb s)) = length reads
    \<and> consumer_state (run_command_stream (Started reads 0) cmd cb s)
           = foldl (\<lambda>s r. snd (cb (rstrip (line_of r)) s)) s reads
    \<and> result (run_command_stream (Started reads 0) cmd cb s)
           = \<lparr> return_code = 0, stdout = concat (map line_of reads), stderr = [],
               success = True \<rparr>"
  by (simp add: run_command_stream_def drain_accepted [OF assms])

theorem stream_relays_every_line_witness:
  "emitted_line (Line (''one  '' @ [CHR 0x0A])) \<and> emitted_line (Line (''two'' @ [CHR 0x0A]))
   \<and> raises_on_none picky_consumer
         [Line (''one  '' @ [CHR 0x0A]), Line (''two'' @ [CHR 0x0A])] []
   \<and> \<not> returns_normally picky_consumer
   \<and> consumer_calls (run_command_stream
         (Started [Line (''one  '' @ [CHR 0x0A]), Line (''two'' @ [CHR 0x0A])] 0)
         [''tool''] picky_consumer [])
       = [''one'', ''two'']
   \<and> consumer_state (run_command_stream
         (Started [Line (''one  '' @ [CHR 0x0A]), Line (''two'' @ [CHR 0x0A])] 0)
         [''tool''] picky_consumer [])
       = [''one'', ''two'']
   \<and> success (result (run_command_stream
         (Started [Line (''one  '' @ [CHR 0x0A]), Line (''two'' @ [CHR 0x0A])] 0)
         [''tool''] picky_consumer []))"
proof -
  have 1: "\<forall>r \<in> set [Line (''one  '' @ [CHR 0x0A]), Line (''two'' @ [CHR 0x0A])]. emitted_line r"
    by simp
  have 2: "raises_on_none picky_consumer
         [Line (''one  '' @ [CHR 0x0A]), Line (''two'' @ [CHR 0x0A])] []"
    by (simp add: picky_consumer_def rstrip_def isspace_def)
  have 3: "\<not> returns_normally picky_consumer"
  proof
    assume "returns_normally picky_consumer"
    then have "fst (picky_consumer ''boom'' []) = None"
      by (simp add: returns_normally_def)
    then show False by (simp add: picky_consumer_def)
  qed
  from 1 2 3 stream_relays_every_line [OF 1 2, of "[''tool'']"]
  show ?thesis by (simp add: rstrip_def isspace_def picky_consumer_def)
qed


text \<open>
  C2, as stated: the consumer receives each line with its trailing newline stripped,
  \<open>N\<close> calls for \<open>N\<close> lines, and the result is a success. The line \<open>a\<close>, blank,
  newline reaches the consumer as \<open>a\<close>, without the blank, since the code strips all
  trailing whitespace. And a consumer that raises on its first call is called once for
  two lines, and the result is a failure.
\<close>

theorem stream_relays_newline_stripped_counterexample:
  "consumer_calls (run_command_stream (Started [Line (''a '' @ [CHR 0x0A])] 0) [''tool'']
       log_consumer [])
     \<noteq> map strip_newline [''a '' @ [CHR 0x0A]]
   \<and> length (consumer_calls (run_command_stream
         (Started [Line (''a'' @ [CHR 0x0A]), Line (''b'' @ [CHR 0x0A])] 0) [''tool'']
         failing_consumer []))
     \<noteq> length [Line (''a'' @ [CHR 0x0A]), Line (''b'' @ [CHR 0x0A])]
   \<and> \<not> success (result (run_command_stream
         (Started [Line (''a'' @ [CHR 0x0A]), Line (''b'' @ [CHR 0x0A])] 0) [''tool'']
         failing_consumer []))"
  by (simp add: run_command_stream_def log_consumer_def failing_consumer_def rstrip_def
      isspace_def strip_newline_def)


text \<open>
  C10, amended: when every read of the output of a spawned process yields a line, a
  streaming run whose consumer does not raise returns the empty string as standard
  error; and a build with a script path whose process exits with a code other than 0,
  and whose cancellation flag reads as unset after the output has been drained, emits
  one terminal result: \<open>FAILED\<close> with the message \<open>Build failed\<close>.
\<close>

theorem streamed_failure_message_is_default:
  assumes "\<forall>r \<in> set reads. emitted_line r"
  shows "(returns_normally cb
          \<longrightarrow> stderr (result (run_command_stream (Started reads rc) cmd cb s)) = [])
    \<and> (script_path (config w) \<noteq> [] \<and> rc \<noteq> 0 \<and> \<not> flag (length reads)
          \<longrightarrow> finished (signals (run h (Started reads rc) flag t0 t1 w)) =
              [\<lparr> status = FAILED, output_path = None, error_message = ''Build failed'',
                 build_time = t1 - t0 \<rparr>])"
proof (intro conjI impI)
  assume "returns_normally cb"
  with assms show "stderr (result (run_command_stream (Started reads rc) cmd cb s)) = []"
    by (simp add: stream_lines)
next
  assume a: "script_path (config w) \<noteq> [] \<and> rc \<noteq> 0 \<and> \<not> flag (length reads)"
  with build_command_returns obtain cmd where c: "build_command h w = Inr cmd"
    by blast
  from a have "\<not> flag (lines_read (Started reads rc))"
    unfolding lines_read_all [OF assms] by simp
  with run_built [OF c, of "Started reads rc" flag t0 t1] a
  show "finished (signals (run h (Started reads rc) flag t0 t1 w)) =
              [\<lparr> status = FAILED, output_path = None, error_message = ''Build failed'',
                 build_time = t1 - t0 \<rparr>]"
    by (simp add: stream_lines [OF assms output_callback_returns])
qed

theorem streamed_failure_message_is_default_witness:
  "emitted_line (Line (''error: no module'' @ [CHR 0x0A]))
   \<and> returns_normally log_consumer
   \<and> stderr (result (run_command_stream (Started [Line (''error: no module'' @ [CHR 0x0A])] 1)
         [''tool''] log_consumer [])) = []
   \<and> (script_path (config sample_worker) \<noteq> [] \<and> (1::int) \<noteq> 0
       \<and> \<not> never (length [Line (''error: no module'' @ [CHR 0x0A])]))
   \<and> map error_message (finished (signals
         (run linux_host (Started [Line (''error: no module'' @ [CHR 0x0A])] 1) never 0 1
            sample_worker)))
       = [''Build failed'']"
proof -
  have 1: "\<forall>r \<in> set [Line (''error: no module'' @ [CHR 0x0A])]. emitted_line r"
    by simp
  have 2: "returns_normally log_consumer"
    by (simp add: returns_normally_def log_consumer_def)
  have 3: "script_path (config sample_worker) \<noteq> [] \<and> (1::int) \<noteq> 0
       \<and> \<not> never (length [Line (''error: no module'' @ [CHR 0x0A])])"
    by (simp add: sample_worker_def default_config_def never_def)
  from 1 2 3 streamed_failure_message_is_default
      [where reads = "[Line (''error: no module'' @ [CHR 0x0A])]" and cb = log_consumer
         and rc = 1 and cmd = "[''tool'']" and s = "[]" and w = sample_worker and flag = never
         and h = linux_host and ?t0.0 = 0 and ?t1.0 = 1, OF 1]
  show ?thesis by simp
qed

text \<open>
  C10, as stated: every streaming run with a spawned process has an empty standard
  error, and every build ending with a nonzero exit code reports \<open>Build failed\<close>. When
  reading the output raises, the exception's text is the standard error of the run and
  the error message of the build; when the consumer raises, its text is the standard
  error; and a build with exit code 1 whose cancellation flag is set reports the empty
  message of a cancelled build.
\<close>

theorem streamed_failure_message_counterexample:
  "stderr (result (run_command_stream (Started [ReadRaises (Exception ''undecodable byte'')] 1)
       [''tool''] log_consumer [])) \<noteq> []
   \<and> map error_message (finished (signals
         (run linux_host (Started [ReadRaises (Exception ''undecodable byte'')] 1) never 0 1
            sample_worker)))
       \<noteq> [''Build failed'']
   \<and> stderr (result (run_command_stream (Started [Line (''a'' @ [CHR 0x0A])] 1)
       [''tool''] failing_consumer [])) \<noteq> []
   \<and> map error_message (finished (signals
         (run linux_host (Started [] 1) always 0 1 sample_worker)))
       \<noteq> [''Build failed'']"
proof -
  have c: "build_command linux_host sample_worker
      = Inr [''python'', ''-m'', ''PyInstaller'', ''--onefile'', ''--clean'', ''--noconfirm'',
             ''app.py'']"
    by (simp add: build_command_def sample_worker_def default_config_def)
  have 1: "stderr (result (run_command_stream
       (Started [ReadRaises (Exception ''undecodable byte'')] 1)
       [''tool''] log_consumer [])) \<noteq> []"
    by (simp add: run_command_stream_def)
  have 2: "map error_message (finished (signals
         (run linux_host (Started [ReadRaises (Exception ''undecodable byte'')] 1) never 0 1
            sample_worker)))
       \<noteq> [''Build failed'']"
    by (simp add: run_def c run_command_stream_def never_def finished_append)
  have 3: "stderr (result (run_command_stream (Started [Line (''a'' @ [CHR 0x0A])] 1)
       [''tool''] failing_consumer [])) \<noteq> []"
    by (simp add: run_command_stream_def failing_consumer_def)
  have 4: "map error_message (finished (signals
         (run linux_host (Started [] 1) always 0 1 sample_worker)))
       \<noteq> [''Build failed'']"
    by (simp add: run_def c run_command_stream_def always_def finished_append)
  from 1 2 3 4 show ?thesis by blast
qed

subsection \<open>The buffered run and the environment orchestrator\<close>

text \<open>
  C7. In a buffered run, an exception of the spawn is turned into the result with exit
  code \<open>-1\<close>, empty output, the exception's text as standard error and no success; an
  expired timeout into the result with exit code \<open>-1\<close>, the partial output if there is
  one, the message \<open>Command timed out after t seconds\<close> and no success. Both handlers
  return a \<open>ProcessResult\<close>; no case of \<open>run_command\<close> is an exception.
\<close>

theorem run_command_failures:
  "run_command (RunRaises e) timeout
     = \<lparr> return_code = - 1, stdout = [], stderr = exn_str e, success = False \<rparr>
   \<and> run_command (TimeoutExpired out) (Some t)
     = \<lparr> return_code = - 1, stdout = (case out of None \<Rightarrow> [] | Some partial \<Rightarrow> partial),
         stderr = ''Command timed out after '' @ str_int t @ '' seconds'', success = False \<rparr>
   \<and> stderr (run_command (TimeoutExpired None) (Some 30))
     = ''Command timed out after 30 seconds''"
  by (simp add: run_command_def str_int_def)

text \<open>
  C8. When the manifest path is absent or names no existing file, the install operation
  emits only \<open>operation_finished(False, "Requirements file not found")\<close> and spawns
  nothing. When the manifest exists and the installer is not at its conventional path,
  it emits the progress label and then
  \<open>operation_finished(False, "Pip not found in virtual environment")\<close>, and spawns
  nothing.
\<close>

theorem install_requirements_fails_fast:
  "(requirements_path' w = None \<or> (\<exists>req. requirements_path' w = Some req \<and> \<not> path_exists h req)
     \<longrightarrow> install_requirements h p w
         = \<lparr> venv_signals = [operation_finished False ''Requirements file not found''],
             venv_spawned = [] \<rparr>)
   \<and> ((\<exists>req. requirements_path' w = Some req \<and> path_exists h req)
        \<and> \<not> path_exists h (pip_path h w)
     \<longrightarrow> install_requirements h p w
         = \<lparr> venv_signals = [progress ''Installing requirements...'',
               operation_finished False ''Pip not found in virtual environment''],
             venv_spawned = [] \<rparr>)"
  by (auto simp: install_requirements_def Let_def)

theorem install_requirements_fails_fast_witness:
  "install_requirements bare_host (Started [] 0) (install_worker (Some ''missing.txt''))
     = \<lparr> venv_signals = [operation_finished False ''Requirements file not found''],
         venv_spawned = [] \<rparr>
   \<and> install_requirements bare_host (Started [] 0) (install_worker (Some ''requirements.txt''))
     = \<lparr> venv_signals = [progress ''Installing requirements...'',
           operation_finished False ''Pip not found in virtual environment''],
         venv_spawned = [] \<rparr>"
proof -
  have 1: "requirements_path' (install_worker (Some ''missing.txt'')) = None
      \<or> (\<exists>req. requirements_path' (install_worker (Some ''missing.txt'')) = Some req
            \<and> \<not> path_exists bare_host req)"
    by (simp add: install_worker_def bare_host_def only_requirements_def)
  have 2: "(\<exists>req. requirements_path' (install_worker (Some ''requirements.txt'')) = Some req
            \<and> path_exists bare_host req)
        \<and> \<not> path_exists bare_host (pip_path bare_host (install_worker (Some ''requirements.txt'')))"
    by (simp add: install_worker_def bare_host_def only_requirements_def pip_path_def joinpath_def)
  from 1 install_requirements_fails_fast
      [of "install_worker (Some ''missing.txt'')" bare_host "Started [] 0"]
  have a: "install_requirements bare_host (Started [] 0) (install_worker (Some ''missing.txt''))
     = \<lparr> venv_signals = [operation_finished False ''Requirements file not found''],
         venv_spawned = [] \<rparr>"
    by blast
  from 2 install_requirements_fails_fast
      [of "install_worker (Some ''requirements.txt'')" bare_host "Started [] 0"]
  have b: "install_requirements bare_host (Started [] 0)
       (install_worker (Some ''requirements.txt''))
     = \<lparr> venv_signals = [progress ''Installing requirements...'',
           operation_finished False ''Pip not found in virtual environment''],
         venv_spawned = [] \<rparr>"
    by blast
  from a b show ?thesis by simp
qed


subsection \<open>The plugin registry\<close>

lemma register_three:
  assumes "distinct [NAME p1, NAME p2, NAME p3]"
  shows "register (register (register [] p1) p2) p3 = [(NAME p1, p1), (NAME p2, p2), (NAME p3, p3)]"
  using assms by (auto simp: register_def)

lemma execute_plugin_three:
  assumes "distinct [NAME p1, NAME p2, NAME p3]"
  shows "execute_plugin [(NAME p1, p1), (NAME p2, p2), (NAME p3, p3)] (NAME p1) c called
           = (outcome_bool (execute p1 c), called @ [NAME p1])"
    and "execute_plugin [(NAME p1, p1), (NAME p2, p2), (NAME p3, p3)] (NAME p2) c called
           = (outcome_bool (execute p2 c), called @ [NAME p2])"
    and "execute_plugin [(NAME p1, p1), (NAME p2, p2), (NAME p3, p3)] (NAME p3) c called
           = (outcome_bool (execute p3 c), called @ [NAME p3])"
  using assms by (auto simp: execute_plugin_def get_plugin_def split: executed.splits)

lemma false_entries_three:
  assumes "n1 \<noteq> n2"
  shows "false_entries [(n1, b1), (n2, False), (n3, b3)] = [n2] \<longleftrightarrow> b1 \<and> b3"
  using assms by (auto simp: false_entries_def)

text \<open>
  C6, as stated: with three enabled post-build plugins of which the second raises, the
  returned map has exactly one false entry. A plugin reports a failure of its own by
  returning false, and that value is passed through: when the first plugin returns false
  and the second raises, the map has two false entries.
\<close>

theorem post_build_plugins_one_false_counterexample:
  "false_entries (fst (execute_post_build_plugins
     (register (register (register [] (post_build_plugin ''first'' returns_false))
        (post_build_plugin ''second'' raises_error)) (post_build_plugin ''third'' returns_true)) ()))
   = [''first'', ''second'']
   \<and> length (false_entries (fst (execute_post_build_plugins
     (register (register (register [] (post_build_plugin ''first'' returns_false))
        (post_build_plugin ''second'' raises_error)) (post_build_plugin ''third'' returns_true)) ())))
   \<noteq> 1"
  by (simp add: execute_post_build_plugins_def register_def get_post_build_plugins_def
      post_build_step_def execute_plugin_def get_plugin_def post_build_plugin_def
      returns_false_def raises_error_def returns_true_def false_entries_def)

text \<open>
  C6, amended: three post-build plugins with distinct names are registered, all enabled,
  and the second raises. Then all three are invoked, in registration order; the returned
  map has one entry for each, the second one false, the others what their plugins
  return; and the entry of the raising plugin is the only false one exactly when the
  first and the third return true.
\<close>

theorem post_build_plugins_isolated:
  assumes "distinct [NAME p1, NAME p2, NAME p3]"
    and "base p1 = PostBuildPlugin" "base p2 = PostBuildPlugin" "base p3 = PostBuildPlugin"
    and "enabled (get_info p1)" "enabled (get_info p2)" "enabled (get_info p3)"
    and "execute p2 context = Raises e"
  shows "execute_post_build_plugins (register (register (register [] p1) p2) p3) context
           = ([(NAME p1, outcome_bool (execute p1 context)), (NAME p2, False),
               (NAME p3, outcome_bool (execute p3 context))],
              [NAME p1, NAME p2, NAME p3])
    \<and> (false_entries
          (fst (execute_post_build_plugins (register (register (register [] p1) p2) p3) context))
          = [NAME p2]
        \<longleftrightarrow> outcome_bool (execute p1 context) \<and> outcome_bool (execute p3 context))"
proof -
  let ?reg = "[(NAME p1, p1), (NAME p2, p2), (NAME p3, p3)]"
  have g: "get_post_build_plugins ?reg = [p1, p2, p3]"
    using assms(2-4) by (simp add: get_post_build_plugins_def)
  have s1: "post_build_step ?reg context ([], []) p1
      = ([(NAME p1, outcome_bool (execute p1 context))], [NAME p1])"
    using assms(5) by (simp add: post_build_step_def execute_plugin_three(1) [OF assms(1)])
  have s2: "post_build_step ?reg context
        ([(NAME p1, outcome_bool (execute p1 context))], [NAME p1]) p2
      = ([(NAME p1, outcome_bool (execute p1 context)), (NAME p2, False)], [NAME p1, NAME p2])"
    using assms(1,6,8) by (simp add: post_build_step_def execute_plugin_three(2) [OF assms(1)])
  have s3: "post_build_step ?reg context
        ([(NAME p1, outcome_bool (execute p1 context)), (NAME p2, False)], [NAME p1, NAME p2]) p3
      = ([(NAME p1, outcome_bool (execute p1 context)), (NAME p2, False),
          (NAME p3, outcome_bool (execute p3 context))], [NAME p1, NAME p2, NAME p3])"
    using assms(1,7) by (simp add: post_build_step_def execute_plugin_three(3) [OF assms(1)])
  have r: "execute_post_build_plugins (register (register (register [] p1) p2) p3) context
           = ([(NAME p1, outcome_bool (execute p1 context)), (NAME p2, False),
               (NAME p3, outcome_bool (execute p3 context))],
              [NAME p1, NAME p2, NAME p3])"
    by (simp add: execute_post_build_plugins_def register_three [OF assms(1)] g s1 s2 s3)
  from assms(1) have "NAME p1 \<noteq> NAME p2" by simp
  from false_entries_three [OF this] show ?thesis
    unfolding r by simp
qed

theorem post_build_plugins_isolated_witness:
  "execute_post_build_plugins
     (register (register (register [] (post_build_plugin ''first'' returns_true))
        (post_build_plugin ''second'' raises_error)) (post_build_plugin ''third'' returns_true)) ()
   = ([(''first'', True), (''second'', False), (''third'', True)],
      [''first'', ''second'', ''third''])
   \<and> false_entries (fst (execute_post_build_plugins
     (register (register (register [] (post_build_plugin ''first'' returns_true))
        (post_build_plugin ''second'' raises_error)) (post_build_plugin ''third'' returns_true)) ()))
     = [''second'']"
proof -
  let ?p1 = "post_build_plugin ''first'' returns_true"
  let ?p2 = "post_build_plugin ''second'' raises_error"
  let ?p3 = "post_build_plugin ''third'' returns_true"
  have 1: "distinct [NAME ?p1, NAME ?p2, NAME ?p3]"
    by (simp add: post_build_plugin_def)
  have 2: "base ?p1 = PostBuildPlugin" "base ?p2 = PostBuildPlugin" "base ?p3 = PostBuildPlugin"
    by (simp_all add: post_build_plugin_def)
  have 3: "enabled (get_info ?p1)" "enabled (get_info ?p2)" "enabled (get_info ?p3)"
    by (simp_all add: post_build_plugin_def)
  have 4: "execute ?p2 () = Raises (Exception ''plugin failed'')"
    by (simp add: post_build_plugin_def raises_error_def)
  have n: "NAME ?p1 = ''first''" "NAME ?p2 = ''second''" "NAME ?p3 = ''third''"
    "outcome_bool (execute ?p1 ()) = True" "outcome_bool (execute ?p3 ()) = True"
    by (simp_all add: post_build_plugin_def returns_true_def)
  from post_build_plugins_isolated [OF 1 2 3 4]
  show ?thesis unfolding n by (simp add: false_entries_def)
qed

end
